theory Spec2Isabelle
  imports Main "HOL-Library.Word"
begin

section \<open>Values of the program\<close>

text \<open>
  \<^verbatim>\<open>size_type\<close> is \<^verbatim>\<open>std::size_t\<close>. Extents, coordinates, steps, strides and offsets are
  64-bit words, so that \<open>-\<close> and \<open>*\<close> wrap around as they do in the program. Axis numbers
  and positions in the slice list are \<^verbatim>\<open>std::size_t\<close> too; they index the slice tuple and
  the shape, and are natural numbers here, with the wrap-around written out where the
  program subtracts a count that may exceed the minuend.
\<close>

type_synonym size_type = "64 word"

definition size_t_wrap :: "int \<Rightarrow> nat" where
  "size_t_wrap k = nat (k mod 2 ^ 64)"

datatype layout_type = row_major | column_major | dynamic

text \<open>
  What a call can end with besides a result: the exception of checked access, and a read
  outside a \<^verbatim>\<open>std::vector\<close> or through an iterator past its end, which is undefined
  behaviour in the program.
\<close>

datatype error = out_of_range | undefined_behaviour

definition read_at :: "'a list \<Rightarrow> nat \<Rightarrow> error + 'a" where
  "read_at xs i = (if i < length xs then Inr (xs ! i) else Inl undefined_behaviour)"

text \<open>A loop that fills a sequence entry by entry; the first failing entry ends it.\<close>

fun collect :: "(error + 'a) list \<Rightarrow> error + 'a list" where
  "collect [] = Inr []"
| "collect (x # xs) =
     (case x of
        Inl err \<Rightarrow> Inl err
      | Inr y \<Rightarrow> (case collect xs of Inl err \<Rightarrow> Inl err | Inr ys \<Rightarrow> Inr (y # ys)))"

section \<open>The slice catalogue\<close>

text \<open>
  Modelled from the spec: the slice kinds and the helpers \<^verbatim>\<open>get_size\<close>, \<^verbatim>\<open>step_size\<close> and
  \<^verbatim>\<open>value\<close> live in \<^verbatim>\<open>xslice.hpp\<close>, which is not part of the sources at hand. A slice is
  one of \<open>Range(start, stop, step)\<close>, \<open>All\<close> (holding the extent of the axis it was
  built for), \<open>Integral\<close> (a fixed index) and \<open>NewAxis\<close>. \<open>size()\<close> is the number of
  elements the slice contributes to its view axis (0 for \<open>Integral\<close>, 1 for \<open>NewAxis\<close>),
  \<open>step_size()\<close> the stride multiplier (1 for \<open>All\<close> and \<open>Integral\<close>), \<open>value(i)\<close> the
  underlying coordinate of view position \<open>i\<close> (the fixed index for \<open>Integral\<close>).
  The size of a range follows the scenarios of the spec: \<open>Range(1,3)\<close> has 2 elements,
  \<open>Range(1,5,2)\<close> has the 2 elements 1 and 3. The spec gives no step size for
  \<open>NewAxis\<close>, which addresses no underlying axis; it is 0 here, and the program never
  steps by it.
\<close>

datatype slice =
    XRange size_type size_type size_type
  | XAll size_type
  | XIntegral size_type
  | XNewAxis

fun get_size :: "slice \<Rightarrow> size_type" where
  "get_size (XRange start stop step) =
     (if stop \<le> start \<or> step = 0 then 0 else (stop - start - 1) div step + 1)"
| "get_size (XAll n) = n"
| "get_size (XIntegral k) = 0"
| "get_size XNewAxis = 1"

fun step_size :: "slice \<Rightarrow> size_type" where
  "step_size (XRange start stop step) = step"
| "step_size (XAll n) = 1"
| "step_size (XIntegral k) = 1"
| "step_size XNewAxis = 0"

fun slice_value :: "slice \<Rightarrow> size_type \<Rightarrow> size_type" where
  "slice_value (XRange start stop step) i = start + i * step"
| "slice_value (XAll n) i = i"
| "slice_value (XIntegral k) i = k"
| "slice_value XNewAxis i = 0"

fun is_integral :: "slice \<Rightarrow> bool" where
  "is_integral (XIntegral k) = True"
| "is_integral s = False"

fun is_newaxis :: "slice \<Rightarrow> bool" where
  "is_newaxis XNewAxis = True"
| "is_newaxis s = False"

text \<open>
  Modelled from the spec: the counting helpers of \<^verbatim>\<open>xview_utils.hpp\<close>, which is not part
  of the sources at hand. \<open>integral_count_before S K\<close> and \<open>newaxis_count_before S K\<close>
  count the \<open>Integral\<close> and the \<open>NewAxis\<close> slots at the positions below \<open>K\<close>. The
  integral-skip walk advances through the slice list, an \<open>Integral\<close> slot being consumed
  without advancing the axis counter, until the axis counter reaches \<open>i\<close>; beyond the
  list every position counts as an axis. \<open>newaxis_skip\<close> is the same walk over the
  \<open>NewAxis\<close> slots.
\<close>

definition integral_count :: "slice list \<Rightarrow> nat" where
  "integral_count S = length (filter is_integral S)"

definition newaxis_count :: "slice list \<Rightarrow> nat" where
  "newaxis_count S = length (filter is_newaxis S)"

definition integral_count_before :: "slice list \<Rightarrow> nat \<Rightarrow> nat" where
  "integral_count_before S K = length (filter is_integral (take K S))"

definition newaxis_count_before :: "slice list \<Rightarrow> nat \<Rightarrow> nat" where
  "newaxis_count_before S K = length (filter is_newaxis (take K S))"

fun integral_skip :: "slice list \<Rightarrow> nat \<Rightarrow> nat" where
  "integral_skip [] i = i"
| "integral_skip (s # S) i =
     (if is_integral s then Suc (integral_skip S i)
      else (case i of 0 \<Rightarrow> 0 | Suc j \<Rightarrow> Suc (integral_skip S j)))"

fun newaxis_skip :: "slice list \<Rightarrow> nat \<Rightarrow> nat" where
  "newaxis_skip [] i = i"
| "newaxis_skip (s # S) i =
     (if is_newaxis s then Suc (newaxis_skip S i)
      else (case i of 0 \<Rightarrow> 0 | Suc j \<Rightarrow> Suc (newaxis_skip S j)))"

section \<open>The underlying expression and the view\<close>

text \<open>
  The underlying expression is an external collaborator. The view reads its shape, its
  strides, its base offset and its layout, and hands coordinate tuples to its element
  access, \<^verbatim>\<open>operator()\<close> and \<^verbatim>\<open>element\<close>.
\<close>

record 'a xexpression =
  e_shape :: "size_type list"
  e_strides :: "size_type list"
  e_data_offset :: size_type
  e_layout :: layout_type
  e_access :: "size_type list \<Rightarrow> 'a"
  e_element :: "size_type list \<Rightarrow> 'a"

definition e_dimension :: "'a xexpression \<Rightarrow> nat" where
  "e_dimension e = length (e_shape e)"

record 'a xview =
  m_e :: "'a xexpression"
  m_slices :: "slice list"
  m_shape :: "size_type list"
  m_strides :: "size_type list"
  m_strides_computed :: bool

text \<open>
  The constructor. The rank is \<^verbatim>\<open>m_e.dimension() - integral_count + newaxis_count\<close> in
  \<^verbatim>\<open>std::size_t\<close>; entry \<open>i\<close> of the shape is the size of the slice at
  \<open>integral_skip i\<close>, or the underlying extent when that position is beyond the slices.
\<close>

definition shape_entry :: "'a xexpression \<Rightarrow> slice list \<Rightarrow> nat \<Rightarrow> error + size_type" where
  "shape_entry e S i =
     (let idx = integral_skip S i
      in if idx < length S then Inr (get_size (S ! idx))
         else read_at (e_shape e) (idx - newaxis_count_before S idx))"

definition xview :: "'a xexpression \<Rightarrow> slice list \<Rightarrow> error + 'a xview" where
  "xview e S =
     (case collect (map (shape_entry e S)
             [0 ..< size_t_wrap (int (e_dimension e) - int (integral_count S)
                                   + int (newaxis_count S))]) of
        Inl err \<Rightarrow> Inl err
      | Inr sh \<Rightarrow>
          Inr \<lparr>m_e = e, m_slices = S, m_shape = sh, m_strides = [],
               m_strides_computed = False\<rparr>)"

definition dimension :: "'a xview \<Rightarrow> nat" where
  "dimension v = length (m_shape v)"

definition shape :: "'a xview \<Rightarrow> size_type list" where
  "shape v = m_shape v"

definition slices :: "'a xview \<Rightarrow> slice list" where
  "slices v = m_slices v"

section \<open>Element access\<close>

text \<open>
  Modelled from the spec: \<^verbatim>\<open>argument<I>(args...)\<close> of \<^verbatim>\<open>xutils.hpp\<close>, which is not part
  of the sources at hand. It is the \<open>I\<close>-th coordinate of the call; a coordinate that
  was not supplied defaults to 0.
\<close>

definition argument :: "nat \<Rightarrow> size_type list \<Rightarrow> size_type" where
  "argument I args = (if I < length args then args ! I else 0)"

text \<open>
  The three overloads of \<^verbatim>\<open>sliced_access\<close>: an integral slice (not an \<^verbatim>\<open>xslice\<close>)
  yields its constant whatever the arguments are; a slice without arguments yields its
  value at 0; a slice with arguments maps the \<open>I\<close>-th argument.
\<close>

definition sliced_access :: "nat \<Rightarrow> slice \<Rightarrow> size_type list \<Rightarrow> size_type" where
  "sliced_access I s args =
     (case s of
        XIntegral squeeze \<Rightarrow> squeeze
      | _ \<Rightarrow>
          (if args = [] then slice_value s 0
           else slice_value s (argument I args)))"

definition lesser_condition :: "slice list \<Rightarrow> nat \<Rightarrow> bool" where
  "lesser_condition S I \<longleftrightarrow> I + newaxis_count_before S (I + 1) < length S"

text \<open>
  \<^verbatim>\<open>index<I>(args...)\<close>, the coordinate on underlying axis \<open>I\<close>. In the second overload
  \<open>I - integral_count + newaxis_count\<close> is computed in \<^verbatim>\<open>std::size_t\<close>.
\<close>

definition index :: "slice list \<Rightarrow> nat \<Rightarrow> size_type list \<Rightarrow> size_type" where
  "index S I args =
     (if lesser_condition S I
      then sliced_access (I - integral_count_before S I + newaxis_count_before S (I + 1))
             (S ! (I + newaxis_count_before S (I + 1))) args
      else argument (size_t_wrap (int I - int (integral_count S) + int (newaxis_count S)))
             args)"

text \<open>
  \<^verbatim>\<open>operator()\<close> builds the index sequence \<open>0 ..< N\<close> with
  \<open>N = sizeof...(Args) + integral_count - newaxis_count\<close> when that is positive and 0
  otherwise; \<^verbatim>\<open>access_impl\<close> maps every \<open>I\<close> of it through \<open>index\<close> and hands the tuple to
  the underlying expression. \<open>access_index\<close> is that tuple.
\<close>

definition access_index :: "'a xview \<Rightarrow> size_type list \<Rightarrow> size_type list" where
  "access_index v args =
     (let S = m_slices v;
          N = (if length args + integral_count S > newaxis_count S
               then length args + integral_count S - newaxis_count S else 0)
      in map (\<lambda>I. index S I args) [0 ..< N])"

definition access_impl :: "'a xview \<Rightarrow> size_type list \<Rightarrow> 'a" where
  "access_impl v args = e_access (m_e v) (access_index v args)"

definition access :: "'a xview \<Rightarrow> size_type list \<Rightarrow> 'a" where
  "access v args = access_impl v args"

text \<open>
  Modelled from the spec: \<^verbatim>\<open>check_access\<close> lives in \<^verbatim>\<open>xexception.hpp\<close>, which is not part
  of the sources at hand. It signals a bounds violation when the number of coordinates
  exceeds the rank or a coordinate is not below the extent of its axis.
\<close>

definition check_access :: "size_type list \<Rightarrow> size_type list \<Rightarrow> error + unit" where
  "check_access sh args =
     (if length args > length sh then Inl out_of_range
      else if list_ex (\<lambda>(n, a). n \<le> a) (zip sh args) then Inl out_of_range
      else Inr ())"

text \<open>\<^verbatim>\<open>at\<close> checks, then calls \<^verbatim>\<open>operator()\<close>.\<close>

definition at :: "'a xview \<Rightarrow> size_type list \<Rightarrow> error + 'a" where
  "at v args =
     (case check_access (shape v) args of
        Inl err \<Rightarrow> Inl err
      | Inr u \<Rightarrow> Inr (access v args))"

text \<open>
  Modelled from the spec: \<^verbatim>\<open>get_slice_value\<close> of \<^verbatim>\<open>xslice.hpp\<close>, which is not part of the
  sources at hand. It takes the coordinate iterator by reference: an integral slice
  yields its constant and leaves the iterator alone, any other slice maps the coordinate
  under the iterator and moves the iterator on.

  \<^verbatim>\<open>make_index\<close> runs over the underlying axes with one iterator \<open>first\<close>, here a
  position in the coordinate list; \<open>last\<close> is the length of the list. In each round the
  iterator is advanced by \<open>newaxis_skip i - i\<close>.
\<close>

definition get_slice_value ::
  "slice \<Rightarrow> size_type list \<Rightarrow> nat \<Rightarrow> error + (size_type \<times> nat)" where
  "get_slice_value s coords first =
     (case s of
        XIntegral squeeze \<Rightarrow> Inr (squeeze, first)
      | _ \<Rightarrow>
          (case read_at coords first of
             Inl err \<Rightarrow> Inl err
           | Inr c \<Rightarrow> Inr (slice_value s c, Suc first)))"

fun make_index_loop ::
  "slice list \<Rightarrow> size_type list \<Rightarrow> nat list \<Rightarrow> nat \<Rightarrow> error + size_type list" where
  "make_index_loop S coords [] first = Inr []"
| "make_index_loop S coords (i # is) first =
     (let k = newaxis_skip S i;
          first' = first + (k - i)
      in if first' > length coords then Inl undefined_behaviour
         else
           (case (if first' \<noteq> length coords
                  then (if k < length S then get_slice_value (S ! k) coords first'
                        else (case read_at coords first' of
                                Inl err \<Rightarrow> Inl err
                              | Inr c \<Rightarrow> Inr (c, Suc first')))
                  else Inr (if k < length S then slice_value (S ! k) 0 else 0, first')) of
              Inl err \<Rightarrow> Inl err
            | Inr (x, first'') \<Rightarrow>
                (case make_index_loop S coords is first'' of
                   Inl err \<Rightarrow> Inl err
                 | Inr xs \<Rightarrow> Inr (x # xs))))"

definition make_index :: "'a xview \<Rightarrow> size_type list \<Rightarrow> error + size_type list" where
  "make_index v coords =
     make_index_loop (m_slices v) coords [0 ..< e_dimension (m_e v)] 0"

definition element :: "'a xview \<Rightarrow> size_type list \<Rightarrow> error + 'a" where
  "element v coords =
     (case make_index v coords of
        Inl err \<Rightarrow> Inl err
      | Inr idx \<Rightarrow> Inr (e_element (m_e v) idx))"

text \<open>\<^verbatim>\<open>operator[]\<close> on a coordinate sequence and on a single coordinate.\<close>

definition subscript :: "'a xview \<Rightarrow> size_type list \<Rightarrow> error + 'a" where
  "subscript v coords = element v coords"

definition subscript1 :: "'a xview \<Rightarrow> size_type \<Rightarrow> 'a" where
  "subscript1 v i = access v [i]"

section \<open>Size, strides, offset and layout\<close>

text \<open>
  Modelled from the spec: \<^verbatim>\<open>compute_size\<close> of \<^verbatim>\<open>xstrides.hpp\<close>, which is not part of the
  sources at hand; \<open>size()\<close> is the number of positions of the view, the product of
  its extents.
\<close>

definition compute_size :: "size_type list \<Rightarrow> size_type" where
  "compute_size sh = foldl (\<lambda>acc n. acc * n) 1 sh"

definition size_of :: "'a xview \<Rightarrow> size_type" where
  "size_of v = compute_size (shape v)"

definition underlying_size :: "'a xview \<Rightarrow> nat \<Rightarrow> error + size_type" where
  "underlying_size v dim = read_at (e_shape (m_e v)) dim"

text \<open>
  One round of the loop of \<^verbatim>\<open>compute_strides\<close>: the underlying stride is read in both
  branches of the conditional, then the entry is set to 0 when the extent is 1.
\<close>

definition stride_entry :: "'a xview \<Rightarrow> nat \<Rightarrow> error + size_type" where
  "stride_entry v i =
     (let S = m_slices v;
          idx = integral_skip S i
      in case read_at (e_strides (m_e v)) (idx - newaxis_count_before S idx) of
           Inl err \<Rightarrow> Inl err
         | Inr u \<Rightarrow>
             Inr (if shape v ! i = 1 then 0
                  else if idx < length S then step_size (S ! idx) * u
                  else u))"

definition compute_strides :: "'a xview \<Rightarrow> error + size_type list" where
  "compute_strides v = collect (map (stride_entry v) [0 ..< dimension v])"

text \<open>\<^verbatim>\<open>strides()\<close> fills the cache on its first call and returns the cache.\<close>

definition strides :: "'a xview \<Rightarrow> error + (size_type list \<times> 'a xview)" where
  "strides v =
     (if \<not> m_strides_computed v
      then (case compute_strides v of
              Inl err \<Rightarrow> Inl err
            | Inr s \<Rightarrow> Inr (s, v\<lparr>m_strides := s, m_strides_computed := True\<rparr>))
      else Inr (m_strides v, v))"

text \<open>
  \<^verbatim>\<open>data_offset()\<close> starts from the offset of the underlying expression and adds, for
  every position \<open>i\<close> of the slice list, the value at 0 of the slice times
  \<^verbatim>\<open>m_e.strides()[i]\<close>.
\<close>

fun data_offset_loop ::
  "'a xview \<Rightarrow> nat list \<Rightarrow> size_type \<Rightarrow> error + size_type" where
  "data_offset_loop v [] offset = Inr offset"
| "data_offset_loop v (i # is) offset =
     (case read_at (e_strides (m_e v)) i of
        Inl err \<Rightarrow> Inl err
      | Inr u \<Rightarrow> data_offset_loop v is (offset + slice_value (m_slices v ! i) 0 * u))"

definition data_offset :: "'a xview \<Rightarrow> error + size_type" where
  "data_offset v =
     data_offset_loop v [0 ..< length (m_slices v)] (e_data_offset (m_e v))"






section \<open>The stepper\<close>

text \<open>
  The cursor of the underlying expression is an external collaborator: the type
  \<^verbatim>\<open>substepper_type\<close> is a parameter of the class. Its operations, and the begin and end
  cursors the underlying expression hands out, are a record that the operations of the
  view stepper take as their first argument.
\<close>

record ('a, 'c) substepper =
  sub_step :: "nat \<Rightarrow> size_type \<Rightarrow> 'c \<Rightarrow> 'c"
  sub_step_back :: "nat \<Rightarrow> size_type \<Rightarrow> 'c \<Rightarrow> 'c"
  sub_to_begin :: "'c \<Rightarrow> 'c"
  sub_to_end :: "layout_type \<Rightarrow> 'c \<Rightarrow> 'c"
  sub_deref :: "'c \<Rightarrow> 'a"
  sub_stepper_begin :: "'c"
  sub_stepper_end :: "layout_type \<Rightarrow> 'c"

record ('a, 'c) xview_stepper =
  p_view :: "'a xview"
  m_it :: "'c"
  m_offset :: nat

definition is_newaxis_slice :: "slice list \<Rightarrow> nat \<Rightarrow> bool" where
  "is_newaxis_slice S idx \<longleftrightarrow>
     newaxis_count_before S (idx + 1) \<noteq> newaxis_count_before S idx"

fun to_end_loop ::
  "('a, 'c) substepper \<Rightarrow> 'a xview \<Rightarrow> nat list \<Rightarrow> 'c \<Rightarrow> error + 'c" where
  "to_end_loop ops v [] it = Inr it"
| "to_end_loop ops v (i # is) it =
     (let S = slices v
      in if \<not> is_newaxis_slice S i
         then (let s = slice_value (S ! i) (get_size (S ! i) - 1);
                   idx = i - newaxis_count_before S i
               in case underlying_size v idx of
                    Inl err \<Rightarrow> Inl err
                  | Inr n \<Rightarrow> to_end_loop ops v is (sub_step_back ops idx (n - 1 - s) it))
         else to_end_loop ops v is it)"

definition to_end_impl ::
  "('a, 'c) substepper \<Rightarrow> ('a, 'c) xview_stepper \<Rightarrow> error + ('a, 'c) xview_stepper" where
  "to_end_impl ops st =
     (case to_end_loop ops (p_view st) [0 ..< length (slices (p_view st))] (m_it st) of
        Inl err \<Rightarrow> Inl err
      | Inr it \<Rightarrow> Inr (st\<lparr>m_it := it\<rparr>))"

text \<open>The constructor: the begin branch anchors the cursor, the end branch is \<open>to_end_impl\<close>.\<close>

definition anchor :: "('a, 'c) substepper \<Rightarrow> slice list \<Rightarrow> 'c \<Rightarrow> nat \<Rightarrow> 'c" where
  "anchor ops S it i =
     (if \<not> is_newaxis_slice S i
      then sub_step ops (i - newaxis_count_before S i) (slice_value (S ! i) 0) it
      else it)"

definition xview_stepper ::
  "('a, 'c) substepper \<Rightarrow> 'a xview \<Rightarrow> 'c \<Rightarrow> nat \<Rightarrow> bool
     \<Rightarrow> error + ('a, 'c) xview_stepper" where
  "xview_stepper ops view it offset end =
     (if \<not> end
      then Inr \<lparr>p_view = view,
                m_it = foldl (anchor ops (slices view)) it [0 ..< length (slices view)],
                m_offset = offset\<rparr>
      else to_end_impl ops \<lparr>p_view = view, m_it = it, m_offset = offset\<rparr>)"

definition stepper_begin ::
  "('a, 'c) substepper \<Rightarrow> 'a xview \<Rightarrow> size_type list \<Rightarrow> error + ('a, 'c) xview_stepper" where
  "stepper_begin ops v sh =
     xview_stepper ops v (sub_stepper_begin ops)
       (size_t_wrap (int (length sh) - int (dimension v))) False"

definition stepper_end ::
  "('a, 'c) substepper \<Rightarrow> 'a xview \<Rightarrow> size_type list \<Rightarrow> layout_type
     \<Rightarrow> error + ('a, 'c) xview_stepper" where
  "stepper_end ops v sh l =
     xview_stepper ops v (sub_stepper_end ops l)
       (size_t_wrap (int (length sh) - int (dimension v))) True"

definition deref :: "('a, 'c) substepper \<Rightarrow> ('a, 'c) xview_stepper \<Rightarrow> 'a" where
  "deref ops st = sub_deref ops (m_it st)"

text \<open>
  The two closures that \<open>step\<close>, \<open>step_back\<close>, \<open>reset\<close> and \<open>reset_back\<close> hand to
  \<open>common_step\<close> and \<open>common_reset\<close>: a step, or a step back, of the underlying cursor.
\<close>

definition it_step ::
  "('a, 'c) substepper \<Rightarrow> nat \<Rightarrow> size_type \<Rightarrow> ('a, 'c) xview_stepper
     \<Rightarrow> ('a, 'c) xview_stepper" where
  "it_step ops idx offset st = st\<lparr>m_it := sub_step ops idx offset (m_it st)\<rparr>"

definition it_step_back ::
  "('a, 'c) substepper \<Rightarrow> nat \<Rightarrow> size_type \<Rightarrow> ('a, 'c) xview_stepper
     \<Rightarrow> ('a, 'c) xview_stepper" where
  "it_step_back ops idx offset st =
     st\<lparr>m_it := sub_step_back ops idx offset (m_it st)\<rparr>"

definition common_step ::
  "nat \<Rightarrow> (nat \<Rightarrow> size_type \<Rightarrow> ('a, 'c) xview_stepper \<Rightarrow> ('a, 'c) xview_stepper)
     \<Rightarrow> ('a, 'c) xview_stepper \<Rightarrow> ('a, 'c) xview_stepper" where
  "common_step dim f st =
     (if dim \<ge> m_offset st
      then (let S = slices (p_view st);
                idx = integral_skip S dim
            in if \<not> is_newaxis_slice S idx
               then (let step = (if idx < length S then step_size (S ! idx) else 1)
                     in f (idx - newaxis_count_before S idx) step st)
               else st)
      else st)"

definition common_step_n ::
  "nat \<Rightarrow> size_type
     \<Rightarrow> (nat \<Rightarrow> size_type \<Rightarrow> ('a, 'c) xview_stepper \<Rightarrow> ('a, 'c) xview_stepper)
     \<Rightarrow> ('a, 'c) xview_stepper \<Rightarrow> ('a, 'c) xview_stepper" where
  "common_step_n dim n f st =
     (if dim \<ge> m_offset st
      then (let S = slices (p_view st);
                idx = integral_skip S dim
            in if \<not> is_newaxis_slice S idx
               then (let step = (if idx < length S then step_size (S ! idx) else 1)
                     in f (idx - newaxis_count_before S idx) (step * n) st)
               else st)
      else st)"

definition common_reset ::
  "nat \<Rightarrow> (nat \<Rightarrow> size_type \<Rightarrow> ('a, 'c) xview_stepper \<Rightarrow> ('a, 'c) xview_stepper)
     \<Rightarrow> ('a, 'c) xview_stepper \<Rightarrow> error + ('a, 'c) xview_stepper" where
  "common_reset dim f st =
     (let S = slices (p_view st);
          idx = integral_skip S dim
      in if \<not> is_newaxis_slice S idx
         then (case (if idx < length S then Inr (get_size (S ! idx))
                     else read_at (shape (p_view st)) dim) of
                 Inl err \<Rightarrow> Inl err
               | Inr sz \<Rightarrow>
                   (let sz' = (if sz \<noteq> 0 then sz - 1 else sz);
                        step = (if idx < length S then step_size (S ! idx) else 1)
                    in Inr (f (idx - newaxis_count_before S idx) (step * sz') st)))
         else Inr st)"

definition step ::
  "('a, 'c) substepper \<Rightarrow> nat \<Rightarrow> ('a, 'c) xview_stepper \<Rightarrow> ('a, 'c) xview_stepper" where
  "step ops dim st = common_step dim (it_step ops) st"

definition step_back ::
  "('a, 'c) substepper \<Rightarrow> nat \<Rightarrow> ('a, 'c) xview_stepper \<Rightarrow> ('a, 'c) xview_stepper" where
  "step_back ops dim st = common_step dim (it_step_back ops) st"

definition step_n ::
  "('a, 'c) substepper \<Rightarrow> nat \<Rightarrow> size_type \<Rightarrow> ('a, 'c) xview_stepper
     \<Rightarrow> ('a, 'c) xview_stepper" where
  "step_n ops dim n st = common_step_n dim n (it_step ops) st"

definition step_back_n ::
  "('a, 'c) substepper \<Rightarrow> nat \<Rightarrow> size_type \<Rightarrow> ('a, 'c) xview_stepper
     \<Rightarrow> ('a, 'c) xview_stepper" where
  "step_back_n ops dim n st = common_step_n dim n (it_step_back ops) st"

definition reset ::
  "('a, 'c) substepper \<Rightarrow> nat \<Rightarrow> ('a, 'c) xview_stepper
     \<Rightarrow> error + ('a, 'c) xview_stepper" where
  "reset ops dim st = common_reset dim (it_step_back ops) st"

definition reset_back ::
  "('a, 'c) substepper \<Rightarrow> nat \<Rightarrow> ('a, 'c) xview_stepper
     \<Rightarrow> error + ('a, 'c) xview_stepper" where
  "reset_back ops dim st = common_reset dim (it_step ops) st"

definition to_begin ::
  "('a, 'c) substepper \<Rightarrow> ('a, 'c) xview_stepper \<Rightarrow> ('a, 'c) xview_stepper" where
  "to_begin ops st = st\<lparr>m_it := sub_to_begin ops (m_it st)\<rparr>"

definition to_end ::
  "('a, 'c) substepper \<Rightarrow> layout_type \<Rightarrow> ('a, 'c) xview_stepper
     \<Rightarrow> error + ('a, 'c) xview_stepper" where
  "to_end ops l st = to_end_impl ops (st\<lparr>m_it := sub_to_end ops l (m_it st)\<rparr>)"

section \<open>A cursor on coordinates and the row-major traversal\<close>

text \<open>
  Modelled from the spec: the cursor of the underlying expression, for the statements
  that need a concrete one. It holds one coordinate per underlying axis; a step of
  magnitude \<open>n\<close> on an axis adds \<open>n\<close> to that coordinate, a step back subtracts it,
  dereferencing reads the element at the coordinates. The begin state is the origin,
  the end state is one step past the last element on the axis that varies fastest.
\<close>

definition end_coordinates :: "size_type list \<Rightarrow> layout_type \<Rightarrow> size_type list" where
  "end_coordinates sh l =
     (let c = map (\<lambda>n. n - 1) sh
      in if c = [] then []
         else (case l of
                 column_major \<Rightarrow> c[0 := c ! 0 + 1]
               | _ \<Rightarrow> c[length c - 1 := c ! (length c - 1) + 1]))"

definition coordinate_cursor :: "'a xexpression \<Rightarrow> ('a, size_type list) substepper" where
  "coordinate_cursor e =
     \<lparr>sub_step = (\<lambda>axis n c. c[axis := c ! axis + n]),
      sub_step_back = (\<lambda>axis n c. c[axis := c ! axis - n]),
      sub_to_begin = (\<lambda>c. replicate (e_dimension e) 0),
      sub_to_end = (\<lambda>l c. end_coordinates (e_shape e) l),
      sub_deref = e_access e,
      sub_stepper_begin = replicate (e_dimension e) 0,
      sub_stepper_end = end_coordinates (e_shape e)\<rparr>"

text \<open>
  Modelled from the spec: the full forward traversal, whose driver lives in
  \<^verbatim>\<open>xiterator.hpp\<close>, which is not part of the sources at hand. The traversal keeps the
  view-space coordinate tuple beside the stepper and moves to the next tuple in row-major
  order: the last axis that is not at its last position is stepped once, every axis after
  it is reset, the first axis excepted; past the last tuple the stepper is sent to its
  end state. \<open>traverse\<close> dereferences the stepper at each of \<open>n\<close> positions.
\<close>

fun increment_stepper ::
  "('a, 'c) substepper \<Rightarrow> size_type list \<Rightarrow> nat
     \<Rightarrow> ('a, 'c) xview_stepper \<times> size_type list
     \<Rightarrow> error + (('a, 'c) xview_stepper \<times> size_type list)" where
  "increment_stepper ops sh 0 (st, coords) =
     (case to_end ops row_major st of
        Inl err \<Rightarrow> Inl err
      | Inr st' \<Rightarrow> Inr (st', sh))"
| "increment_stepper ops sh (Suc j) (st, coords) =
     (if coords ! j \<noteq> sh ! j - 1
      then Inr (step ops j st, coords[j := coords ! j + 1])
      else (case (if j \<noteq> 0 then reset ops j st else Inr st) of
              Inl err \<Rightarrow> Inl err
            | Inr st' \<Rightarrow> increment_stepper ops sh j (st', coords[j := 0])))"

fun traverse ::
  "('a, 'c) substepper \<Rightarrow> size_type list \<Rightarrow> nat
     \<Rightarrow> ('a, 'c) xview_stepper \<times> size_type list \<Rightarrow> error + 'a list" where
  "traverse ops sh 0 (st, coords) = Inr []"
| "traverse ops sh (Suc n) (st, coords) =
     (case increment_stepper ops sh (length sh) (st, coords) of
        Inl err \<Rightarrow> Inl err
      | Inr next \<Rightarrow>
          (case traverse ops sh n next of
             Inl err \<Rightarrow> Inl err
           | Inr xs \<Rightarrow> Inr (deref ops st # xs)))"

definition full_traversal :: "('a, 'c) substepper \<Rightarrow> 'a xview \<Rightarrow> error + 'a list" where
  "full_traversal ops v =
     (case stepper_begin ops v (shape v) of
        Inl err \<Rightarrow> Inl err
      | Inr st \<Rightarrow>
          traverse ops (shape v) (unat (size_of v)) (st, replicate (dimension v) 0))"

section \<open>Expressions and views of the scenarios\<close>

text \<open>
  The underlying expressions below are row-major arrays whose element at a coordinate
  tuple is the tuple itself, so that two accesses yield the same element exactly when
  they reach the same position.
\<close>

definition row_major_array :: "size_type list \<Rightarrow> size_type list \<Rightarrow> size_type list xexpression" where
  "row_major_array sh st =
     \<lparr>e_shape = sh, e_strides = st, e_data_offset = 0, e_layout = row_major,
      e_access = (\<lambda>c. c), e_element = (\<lambda>c. c)\<rparr>"

text \<open>Scenario A of the spec: shape \<open>[4,5]\<close> viewed through \<open>Range(1,3), All\<close>.\<close>

definition scenario_A_expr :: "size_type list xexpression" where
  "scenario_A_expr = row_major_array [4, 5] [5, 1]"

definition scenario_A_slices :: "slice list" where
  "scenario_A_slices = [XRange 1 3 1, XAll 5]"

definition scenario_A_view :: "size_type list xview" where
  "scenario_A_view =
     \<lparr>m_e = scenario_A_expr, m_slices = scenario_A_slices, m_shape = [2, 5],
      m_strides = [], m_strides_computed = False\<rparr>"

text \<open>A row of three elements under two new axes: \<open>NewAxis, NewAxis, All\<close>.\<close>

definition row3_expr :: "size_type list xexpression" where
  "row3_expr = row_major_array [3] [1]"

definition row3_slices :: "slice list" where
  "row3_slices = [XNewAxis, XNewAxis, XAll 3]"

definition row3_view :: "size_type list xview" where
  "row3_view =
     \<lparr>m_e = row3_expr, m_slices = row3_slices, m_shape = [1, 1, 3],
      m_strides = [], m_strides_computed = False\<rparr>"

text \<open>A 2 by 3 array under \<open>NewAxis, Range(1,2)\<close>.\<close>

definition grid23_expr :: "size_type list xexpression" where
  "grid23_expr = row_major_array [2, 3] [3, 1]"

definition grid23_slices :: "slice list" where
  "grid23_slices = [XNewAxis, XRange 1 2 1]"

definition grid23_view :: "size_type list xview" where
  "grid23_view =
     \<lparr>m_e = grid23_expr, m_slices = grid23_slices, m_shape = [1, 1, 3],
      m_strides = [], m_strides_computed = False\<rparr>"

text \<open>A row of four elements under the empty range \<open>Range(2,2)\<close>.\<close>

definition row4_expr :: "size_type list xexpression" where
  "row4_expr = row_major_array [4] [1]"

definition empty_slices :: "slice list" where
  "empty_slices = [XRange 2 2 1]"

definition empty_view :: "size_type list xview" where
  "empty_view =
     \<lparr>m_e = row4_expr, m_slices = empty_slices, m_shape = [0],
      m_strides = [], m_strides_computed = False\<rparr>"

text \<open>The row of three elements as a column: \<open>All, NewAxis\<close>.\<close>

definition column_slices :: "slice list" where
  "column_slices = [XAll 3, XNewAxis]"

definition column_view :: "size_type list xview" where
  "column_view =
     \<lparr>m_e = row3_expr, m_slices = column_slices, m_shape = [3, 1],
      m_strides = [], m_strides_computed = False\<rparr>"

text \<open>The begin steppers of these views on the coordinate cursor, and scenario A with its
  stride cache filled.\<close>

definition scenario_A_begin :: "(size_type list, size_type list) xview_stepper" where
  "scenario_A_begin = \<lparr>p_view = scenario_A_view, m_it = [1, 0], m_offset = 0\<rparr>"

definition row3_begin :: "(size_type list, size_type list) xview_stepper" where
  "row3_begin = \<lparr>p_view = row3_view, m_it = [0], m_offset = 0\<rparr>"

definition empty_begin :: "(size_type list, size_type list) xview_stepper" where
  "empty_begin = \<lparr>p_view = empty_view, m_it = [2], m_offset = 0\<rparr>"


section \<open>Auxiliary facts\<close>

lemma collect_map_Inr: "collect (map Inr ys) = Inr ys"
  by (induction ys) simp_all

lemma collect_Inr_D: "collect xs = Inr ys \<Longrightarrow> xs = map Inr ys"
  by (induction xs arbitrary: ys) (auto split: sum.splits)

lemma collect_Inr_iff: "collect xs = Inr ys \<longleftrightarrow> xs = map Inr ys"
  using collect_map_Inr collect_Inr_D by metis

lemma collect_Inr_length: "collect xs = Inr ys \<Longrightarrow> length ys = length xs"
  by (simp add: collect_Inr_iff)

lemma collect_Inr_nth: "collect xs = Inr ys \<Longrightarrow> i < length xs \<Longrightarrow> xs ! i = Inr (ys ! i)"
  by (simp add: collect_Inr_iff)

lemma collect_total:
  "(\<And>i. i < length xs \<Longrightarrow> \<exists>y. xs ! i = Inr y) \<Longrightarrow> \<exists>ys. collect xs = Inr ys"
proof (induction xs)
  case Nil
  then show ?case by simp
next
  case (Cons x xs)
  from Cons.prems [of 0] obtain y where y: "x = Inr y" by auto
  have "\<And>i. i < length xs \<Longrightarrow> \<exists>y. xs ! i = Inr y"
    using Cons.prems [of "Suc _"] by auto
  then obtain ys where "collect xs = Inr ys" using Cons.IH by blast
  with y show ?case by simp
qed

lemma newaxis_count_before_all: "length S \<le> K \<Longrightarrow> newaxis_count_before S K = newaxis_count S"
  by (simp add: newaxis_count_before_def newaxis_count_def)

lemma integral_skip_beyond:
  "length S \<le> integral_skip S i \<Longrightarrow> integral_skip S i = i + integral_count S"
  by (induction S i rule: integral_skip.induct)
     (auto simp: integral_count_def split: nat.splits if_splits)


lemma integral_newaxis_le: "integral_count S + newaxis_count S \<le> length S"
proof (induction S)
  case Nil
  then show ?case by (simp add: integral_count_def newaxis_count_def)
next
  case (Cons s S)
  then show ?case by (cases s) (auto simp: integral_count_def newaxis_count_def)
qed

lemma size_t_wrap_id: "0 \<le> k \<Longrightarrow> k < 2 ^ 64 \<Longrightarrow> size_t_wrap k = nat k"
  by (simp add: size_t_wrap_def)


lemma xview_Inr:
  assumes "xview e S = Inr v"
  shows "m_e v = e" "m_slices v = S" "m_strides_computed v = False"
    "length (m_shape v) = size_t_wrap (int (e_dimension e) - int (integral_count S) + int (newaxis_count S))"
    "\<And>i. i < length (m_shape v) \<Longrightarrow> shape_entry e S i = Inr (m_shape v ! i)"
proof -
  let ?r = "size_t_wrap (int (e_dimension e) - int (integral_count S) + int (newaxis_count S))"
  from assms obtain sh where c: "collect (map (shape_entry e S) [0 ..< ?r]) = Inr sh"
    and v: "v = \<lparr>m_e = e, m_slices = S, m_shape = sh, m_strides = [], m_strides_computed = False\<rparr>"
    by (auto simp: xview_def split: sum.splits)
  show "m_e v = e" "m_slices v = S" "m_strides_computed v = False" using v by simp_all
  show l: "length (m_shape v) = ?r" using collect_Inr_length [OF c] v by simp
  fix i assume "i < length (m_shape v)"
  then show "shape_entry e S i = Inr (m_shape v ! i)"
    using collect_Inr_nth [OF c, of i] l v by simp
qed




lemma xview_total:
  assumes "integral_count S \<le> e_dimension e + newaxis_count S"
      and "e_dimension e + length S < 2 ^ 64"
  shows "\<exists>v. xview e S = Inr v"
proof -
  let ?k = "int (e_dimension e) - int (integral_count S) + int (newaxis_count S)"
  have "newaxis_count S \<le> length S" by (simp add: newaxis_count_def)
  then have "0 \<le> ?k" "?k < 2 ^ 64" using assms by simp_all
  then have r: "size_t_wrap ?k = nat ?k" by (rule size_t_wrap_id)
  have "\<exists>y. map (shape_entry e S) [0 ..< nat ?k] ! i = Inr y"
    if "i < length (map (shape_entry e S) [0 ..< nat ?k])" for i
  proof -
    from that have i: "int i < ?k" by simp
    show ?thesis
    proof (cases "integral_skip S i < length S")
      case True
      then show ?thesis using that by (simp add: shape_entry_def)
    next
      case False
      then have sk: "integral_skip S i = i + integral_count S"
        by (intro integral_skip_beyond) simp
      have "newaxis_count S \<le> i + integral_count S"
        using False sk integral_newaxis_le [of S] by simp
      then have "i + integral_count S - newaxis_count S < e_dimension e"
        using i by linarith
      with sk show ?thesis using that False
        by (simp add: shape_entry_def read_at_def newaxis_count_before_all e_dimension_def)
    qed
  qed
  then obtain sh where "collect (map (shape_entry e S) [0 ..< nat ?k]) = Inr sh"
    using collect_total by blast
  then show ?thesis by (simp add: xview_def r)
qed

lemma xview_eval:
  assumes "size_t_wrap (int (e_dimension e) - int (integral_count S) + int (newaxis_count S)) = r"
      and "collect (map (shape_entry e S) [0 ..< r]) = Inr sh"
  shows "xview e S = Inr \<lparr>m_e = e, m_slices = S, m_shape = sh, m_strides = [],
                          m_strides_computed = False\<rparr>"
  using assms by (simp add: xview_def)

lemma scenario_A_constructed:
  "xview scenario_A_expr scenario_A_slices = Inr scenario_A_view"
  unfolding scenario_A_view_def
  by (rule xview_eval [where r = 2]; code_simp)

lemma row3_constructed: "xview row3_expr row3_slices = Inr row3_view"
  unfolding row3_view_def
  by (rule xview_eval [where r = 3]; code_simp)

lemma grid23_constructed: "xview grid23_expr grid23_slices = Inr grid23_view"
  unfolding grid23_view_def
  by (rule xview_eval [where r = 3]; code_simp)

lemma empty_constructed: "xview row4_expr empty_slices = Inr empty_view"
  unfolding empty_view_def
  by (rule xview_eval [where r = 1]; code_simp)

lemma column_constructed: "xview row3_expr column_slices = Inr column_view"
  unfolding column_view_def
  by (rule xview_eval [where r = 2]; code_simp)

lemma is_newaxis_slice_iff:
  "is_newaxis_slice S P \<longleftrightarrow> P < length S \<and> S ! P = XNewAxis"
proof (cases "P < length S")
  case True
  have "is_newaxis (S ! P) \<longleftrightarrow> S ! P = XNewAxis" by (cases "S ! P") simp_all
  then show ?thesis using True
    by (simp add: is_newaxis_slice_def newaxis_count_before_def take_Suc_conv_app_nth)
next
  case False
  then show ?thesis by (simp add: is_newaxis_slice_def newaxis_count_before_def)
qed

lemma stepper_begin_eval:
  assumes "foldl (anchor ops (slices v)) (sub_stepper_begin ops) [0 ..< length (slices v)] = it"
      and "size_t_wrap (int (length sh) - int (dimension v)) = off"
  shows "stepper_begin ops v sh = Inr \<lparr>p_view = v, m_it = it, m_offset = off\<rparr>"
  using assms by (simp add: stepper_begin_def xview_stepper_def)

lemma scenario_A_begin_eq:
  "stepper_begin (coordinate_cursor scenario_A_expr) scenario_A_view (shape scenario_A_view)
     = Inr scenario_A_begin"
  unfolding scenario_A_begin_def by (rule stepper_begin_eval; code_simp)

lemma row3_begin_eq:
  "stepper_begin (coordinate_cursor row3_expr) row3_view (shape row3_view) = Inr row3_begin"
  unfolding row3_begin_def by (rule stepper_begin_eval; code_simp)

lemma empty_begin_eq:
  "stepper_begin (coordinate_cursor row4_expr) empty_view (shape empty_view) = Inr empty_begin"
  unfolding empty_begin_def by (rule stepper_begin_eval; code_simp)

lemma scenario_A_begin_sel:
  "slices (p_view scenario_A_begin) = scenario_A_slices"
  "m_it scenario_A_begin = [1, 0]" "m_offset scenario_A_begin = 0"
  "dimension (p_view scenario_A_begin) = 2" "shape (p_view scenario_A_begin) = [2, 5]"
  by (simp_all add: scenario_A_begin_def scenario_A_view_def slices_def dimension_def shape_def)

lemma row3_begin_sel:
  "slices (p_view row3_begin) = row3_slices" "m_it row3_begin = [0]" "m_offset row3_begin = 0"
  by (simp_all add: row3_begin_def row3_view_def slices_def)

lemma empty_begin_sel:
  "slices (p_view empty_begin) = empty_slices" "m_it empty_begin = [2]"
  "m_offset empty_begin = 0"
  by (simp_all add: empty_begin_def empty_view_def slices_def)

lemma coordinate_cursor_sel:
  "sub_step (coordinate_cursor e) axis n c = c[axis := c ! axis + n]"
  "sub_step_back (coordinate_cursor e) axis n c = c[axis := c ! axis - n]"
  by (simp_all add: coordinate_cursor_def)

lemma scenario_A_slices_facts:
  "integral_skip scenario_A_slices (Suc 0) = Suc 0"
  "newaxis_count_before scenario_A_slices (Suc 0) = 0"
  "scenario_A_slices ! Suc 0 = XAll 5" "length scenario_A_slices = 2"
  by code_simp+

lemma row3_slices_facts:
  "integral_skip row3_slices (Suc 0) = Suc 0" "row3_slices ! Suc 0 = XNewAxis"
  "length row3_slices = 3" "integral_skip row3_slices 2 = 2" "row3_slices ! 2 = XAll 3"
  "newaxis_count_before row3_slices 2 = 2"
  by code_simp+



lemma list_ex_zip_iff:
  "length args \<le> length sh \<Longrightarrow>
   list_ex (\<lambda>(n, a). n \<le> a) (zip sh args) \<longleftrightarrow> (\<exists>j < length args. sh ! j \<le> args ! j)"
  by (auto simp: list_ex_iff set_zip)

section \<open>The claims\<close>

text \<open>
  Claim C1 says that a view coordinate \<open>i\<close> on an axis sliced by \<open>Range\<close> or \<open>All\<close>
  reaches the underlying coordinate \<open>value(i)\<close>, through \<^verbatim>\<open>operator()\<close>, \<^verbatim>\<open>element\<close> and
  \<^verbatim>\<open>operator[]\<close> alike. On a row of three elements viewed through
  \<open>NewAxis, NewAxis, All\<close> the view has shape \<open>[1,1,3]\<close>, and \<^verbatim>\<open>operator()\<close> at
  \<open>(0,0,2)\<close> reaches the underlying coordinate 0: \<open>index<0>\<close> takes the slice at
  \<open>0 + newaxis_count_before 1 = 1\<close>, the second \<open>NewAxis\<close>, instead of the \<open>All\<close> slice
  at \<open>newaxis_skip 0 = 2\<close>. The value of that slice at 2 is 2, and \<^verbatim>\<open>make_index\<close>,
  which finds the slice with \<open>newaxis_skip\<close>, reaches 2. Scenario A of the claim, which
  has no \<open>NewAxis\<close>, holds: the view has shape \<open>[2,5]\<close> and \<open>view(0,0)\<close> is
  \<open>underlying(1,0)\<close>.
\<close>

theorem access_under_two_newaxis:
  "xview row3_expr row3_slices = Inr row3_view
   \<and> shape row3_view = [1, 1, 3]
   \<and> access_index row3_view [0, 0, 2] = [0]
   \<and> access row3_view [0, 0, 2] = e_access row3_expr [0]
   \<and> slice_value (row3_slices ! 2) 2 = 2
   \<and> make_index row3_view [0, 0, 2] = Inr [2]
   \<and> xview scenario_A_expr scenario_A_slices = Inr scenario_A_view
   \<and> shape scenario_A_view = [2, 5]
   \<and> access scenario_A_view [0, 0] = e_access scenario_A_expr [1, 0]"
proof -
  have "shape row3_view = [1, 1, 3]" by (simp add: shape_def row3_view_def)
  moreover have "access_index row3_view [0, 0, 2] = [0]" by code_simp
  moreover have "access row3_view [0, 0, 2] = e_access row3_expr [0]" by code_simp
  moreover have "slice_value (row3_slices ! 2) 2 = 2" by code_simp
  moreover have "make_index row3_view [0, 0, 2] = Inr [2]" by code_simp
  moreover have "shape scenario_A_view = [2, 5]"
    by (simp add: shape_def scenario_A_view_def)
  moreover have "access scenario_A_view [0, 0] = e_access scenario_A_expr [1, 0]"
    by code_simp
  ultimately show ?thesis using row3_constructed scenario_A_constructed by simp
qed



text \<open>
  Claim C3 says that a full forward traversal dereferences, at each of the \<open>size()\<close>
  positions, the element that element access returns for the same view coordinates.
  On the view of claim C1 the traversal visits the three underlying positions 0, 1, 2,
  while \<^verbatim>\<open>operator()\<close> returns the element at position 0 for each of the three
  coordinate tuples.
\<close>

theorem traversal_under_two_newaxis:
  "size_of row3_view = 3
   \<and> full_traversal (coordinate_cursor row3_expr) row3_view = Inr [[0], [1], [2]]
   \<and> map (access row3_view) [[0, 0, 0], [0, 0, 1], [0, 0, 2]] = [[0], [0], [0]]"
proof -
  have "size_of row3_view = 3" by code_simp
  moreover have "full_traversal (coordinate_cursor row3_expr) row3_view = Inr [[0], [1], [2]]"
    by code_simp
  moreover have "map (access row3_view) [[0, 0, 0], [0, 0, 1], [0, 0, 2]]
                   = [[0], [0], [0]]"
    by code_simp
  ultimately show ?thesis by simp
qed

text \<open>
  Claim C4. With \<open>P = integral_skip dim\<close>: \<open>step(dim, n)\<close> and \<open>step_back(dim, n)\<close>
  leave the stepper as it is when \<open>dim\<close> is below the dimension offset, and when \<open>P\<close>
  is the position of a \<open>NewAxis\<close> slice; otherwise they hand a step, respectively a step
  back, of magnitude \<open>step_size * n\<close> on axis \<open>P - newaxis_count_before P\<close> to the
  underlying cursor, where \<open>step_size\<close> is that of the slice at \<open>P\<close> within the slice list
  and 1 beyond it. The overloads without \<open>n\<close> are the case \<open>n = 1\<close>.
\<close>

theorem step_delegation:
  "let S = slices (p_view st);
       P = integral_skip S dim;
       axis = P - newaxis_count_before S P;
       mult = (if P < length S then step_size (S ! P) else 1)
   in step_n ops dim n st
        = (if dim < m_offset st then st
           else if P < length S \<and> S ! P = XNewAxis then st
           else st\<lparr>m_it := sub_step ops axis (mult * n) (m_it st)\<rparr>)
    \<and> step_back_n ops dim n st
        = (if dim < m_offset st then st
           else if P < length S \<and> S ! P = XNewAxis then st
           else st\<lparr>m_it := sub_step_back ops axis (mult * n) (m_it st)\<rparr>)
    \<and> step ops dim st = step_n ops dim 1 st
    \<and> step_back ops dim st = step_back_n ops dim 1 st"
  by (simp add: Let_def step_def step_back_def step_n_def step_back_n_def
        common_step_def common_step_n_def it_step_def it_step_back_def
        is_newaxis_slice_iff)

theorem step_delegation_witness:
  "step_n (coordinate_cursor scenario_A_expr) 1 2 scenario_A_begin
     = scenario_A_begin\<lparr>m_it := [1, 2]\<rparr>
   \<and> step_back_n (coordinate_cursor scenario_A_expr) 1 2 (scenario_A_begin\<lparr>m_it := [1, 2]\<rparr>)
     = scenario_A_begin\<lparr>m_it := [1, 0]\<rparr>
   \<and> step_n (coordinate_cursor scenario_A_expr) 0 2 (scenario_A_begin\<lparr>m_offset := 1\<rparr>)
     = scenario_A_begin\<lparr>m_offset := 1\<rparr>
   \<and> step_n (coordinate_cursor row3_expr) 1 2 row3_begin = row3_begin
   \<and> step (coordinate_cursor row3_expr) 2 row3_begin = row3_begin\<lparr>m_it := [1]\<rparr>"
proof -
  have 1: "step_n (coordinate_cursor scenario_A_expr) 1 2 scenario_A_begin
     = scenario_A_begin\<lparr>m_it := [1, 2]\<rparr>"
    using step_delegation [of scenario_A_begin 1 "coordinate_cursor scenario_A_expr" 2]
    by (simp add: Let_def scenario_A_begin_sel scenario_A_slices_facts coordinate_cursor_sel)
  have 2: "step_back_n (coordinate_cursor scenario_A_expr) 1 2 (scenario_A_begin\<lparr>m_it := [1, 2]\<rparr>)
     = scenario_A_begin\<lparr>m_it := [1, 0]\<rparr>"
    using step_delegation [of "scenario_A_begin\<lparr>m_it := [1, 2]\<rparr>" 1
        "coordinate_cursor scenario_A_expr" 2]
    by (simp add: Let_def scenario_A_begin_sel scenario_A_slices_facts coordinate_cursor_sel)
  have 3: "step_n (coordinate_cursor scenario_A_expr) 0 2 (scenario_A_begin\<lparr>m_offset := 1\<rparr>)
     = scenario_A_begin\<lparr>m_offset := 1\<rparr>"
    using step_delegation [of "scenario_A_begin\<lparr>m_offset := 1\<rparr>" 0
        "coordinate_cursor scenario_A_expr" 2]
    by (simp add: Let_def)
  have 4: "step_n (coordinate_cursor row3_expr) 1 2 row3_begin = row3_begin"
    using step_delegation [of row3_begin 1 "coordinate_cursor row3_expr" 2]
    by (simp add: Let_def row3_begin_sel row3_slices_facts)
  have 5: "step (coordinate_cursor row3_expr) 2 row3_begin = row3_begin\<lparr>m_it := [1]\<rparr>"
    using step_delegation [of row3_begin 2 "coordinate_cursor row3_expr" 1]
    by (simp add: Let_def row3_begin_sel row3_slices_facts coordinate_cursor_sel)
  from 1 2 3 4 5 show ?thesis by simp
qed

text \<open>
  Claim C5 gives \<open>step_size * (axis_extent - 1)\<close> as the magnitude of \<open>reset\<close> and
  \<open>reset_back\<close> on every axis. On the empty range \<open>Range(2,2)\<close> the extent is 0 and
  \<open>step_size * (axis_extent - 1)\<close> is \<open>2^64 - 1\<close> in \<^verbatim>\<open>std::size_t\<close>: a step back of that
  magnitude would move the cursor from 2 to 3, and \<open>reset\<close> leaves it at 2.
\<close>

theorem reset_on_empty_range:
  "get_size (empty_slices ! 0) = 0
   \<and> map_sum id m_it (reset (coordinate_cursor row4_expr) 0 empty_begin) = Inr [2]
   \<and> m_it (it_step_back (coordinate_cursor row4_expr) 0
            (step_size (empty_slices ! 0) * (get_size (empty_slices ! 0) - 1)) empty_begin)
       = [3]
   \<and> reset (coordinate_cursor row4_expr) 0 empty_begin
       \<noteq> Inr (it_step_back (coordinate_cursor row4_expr) 0
                (step_size (empty_slices ! 0) * (get_size (empty_slices ! 0) - 1))
                empty_begin)"
proof -
  have a: "get_size (empty_slices ! 0) = 0" by code_simp
  have b: "map_sum id m_it (reset (coordinate_cursor row4_expr) 0 empty_begin) = Inr [2]"
    by code_simp
  have c: "m_it (it_step_back (coordinate_cursor row4_expr) 0
            (step_size (empty_slices ! 0) * (get_size (empty_slices ! 0) - 1)) empty_begin)
       = [3]"
    by code_simp
  have "reset (coordinate_cursor row4_expr) 0 empty_begin
       \<noteq> Inr (it_step_back (coordinate_cursor row4_expr) 0
                (step_size (empty_slices ! 0) * (get_size (empty_slices ! 0) - 1))
                empty_begin)"
  proof
    assume "reset (coordinate_cursor row4_expr) 0 empty_begin
       = Inr (it_step_back (coordinate_cursor row4_expr) 0
                (step_size (empty_slices ! 0) * (get_size (empty_slices ! 0) - 1))
                empty_begin)"
    then have "map_sum id m_it (reset (coordinate_cursor row4_expr) 0 empty_begin) = Inr [3]"
      using c by simp
    with b show False by simp
  qed
  with a b c show ?thesis by simp
qed

text \<open>
  Claim C5, amended. With the axis translation of \<open>step\<close>, \<open>reset(dim)\<close> and
  \<open>reset_back(dim)\<close> leave the stepper as it is on a \<open>NewAxis\<close> position; otherwise
  \<open>reset\<close> hands a step back, and \<open>reset_back\<close> a step, on the same axis and of the same
  magnitude to the underlying cursor: \<open>step_size * (axis_extent - 1)\<close> when the extent is
  not 0, and 0 when it is 0. The extent is the size of the slice within the slice list
  and the extent of the view at \<open>dim\<close> beyond it.
\<close>

theorem reset_delegation:
  "let S = slices (p_view st);
       P = integral_skip S dim;
       axis = P - newaxis_count_before S P;
       mult = (if P < length S then step_size (S ! P) else 1);
       extent = (if P < length S then get_size (S ! P) else shape (p_view st) ! dim);
       magnitude = (if extent = 0 then 0 else mult * (extent - 1))
   in (P < length S \<and> S ! P = XNewAxis
         \<longrightarrow> reset ops dim st = Inr st \<and> reset_back ops dim st = Inr st)
    \<and> (\<not> (P < length S \<and> S ! P = XNewAxis) \<and> (P < length S \<or> dim < dimension (p_view st))
         \<longrightarrow> reset ops dim st
               = Inr (st\<lparr>m_it := sub_step_back ops axis magnitude (m_it st)\<rparr>)
           \<and> reset_back ops dim st
               = Inr (st\<lparr>m_it := sub_step ops axis magnitude (m_it st)\<rparr>))"
  by (auto simp: Let_def reset_def reset_back_def common_reset_def it_step_def
        it_step_back_def is_newaxis_slice_iff read_at_def shape_def dimension_def)

theorem reset_delegation_witness:
  "reset (coordinate_cursor scenario_A_expr) 1 (scenario_A_begin\<lparr>m_it := [1, 4]\<rparr>)
     = Inr (scenario_A_begin\<lparr>m_it := [1, 0]\<rparr>)
   \<and> reset_back (coordinate_cursor scenario_A_expr) 1 scenario_A_begin
     = Inr (scenario_A_begin\<lparr>m_it := [1, 4]\<rparr>)
   \<and> reset (coordinate_cursor row3_expr) 1 row3_begin = Inr row3_begin
   \<and> reset_back (coordinate_cursor row3_expr) 1 row3_begin = Inr row3_begin"
proof -
  have 1: "reset (coordinate_cursor scenario_A_expr) 1 (scenario_A_begin\<lparr>m_it := [1, 4]\<rparr>)
     = Inr (scenario_A_begin\<lparr>m_it := [1, 0]\<rparr>)"
    using reset_delegation [of "scenario_A_begin\<lparr>m_it := [1, 4]\<rparr>" 1
        "coordinate_cursor scenario_A_expr"]
    by (simp add: Let_def scenario_A_begin_sel scenario_A_slices_facts coordinate_cursor_sel)
  have 2: "reset_back (coordinate_cursor scenario_A_expr) 1 scenario_A_begin
     = Inr (scenario_A_begin\<lparr>m_it := [1, 4]\<rparr>)"
    using reset_delegation [of scenario_A_begin 1 "coordinate_cursor scenario_A_expr"]
    by (simp add: Let_def scenario_A_begin_sel scenario_A_slices_facts coordinate_cursor_sel)
  have 3: "reset (coordinate_cursor row3_expr) 1 row3_begin = Inr row3_begin
           \<and> reset_back (coordinate_cursor row3_expr) 1 row3_begin = Inr row3_begin"
    using reset_delegation [of row3_begin 1 "coordinate_cursor row3_expr"]
    by (simp add: Let_def row3_begin_sel row3_slices_facts)
  from 1 2 3 show ?thesis by simp
qed

text \<open>
  Where every underlying stride that \<open>compute_strides\<close> reads exists, \<open>strides()\<close>
  returns: the stride of view axis \<open>i\<close> is 0 when the extent of the axis is 1; otherwise
  it is the step size of the slice at \<open>P = integral_skip i\<close> times the underlying
  stride at \<open>P - newaxis_count_before P\<close> when \<open>P\<close> is within the slice list, and that
  underlying stride alone beyond it. A second call returns the cached strides.
\<close>

lemma strides_in_range:
  assumes "xview e S = Inr v"
      and "\<forall>i < dimension v.
             integral_skip S i - newaxis_count_before S (integral_skip S i)
               < length (e_strides e)"
  shows "\<exists>s v'. strides v = Inr (s, v')
           \<and> length s = dimension v
           \<and> (\<forall>i < dimension v.
                 let P = integral_skip S i;
                     axis = P - newaxis_count_before S P
                 in s ! i = (if shape v ! i = 1 then 0
                             else if P < length S then step_size (S ! P) * e_strides e ! axis
                             else e_strides e ! axis))
           \<and> strides v' = Inr (s, v')"
proof -
  have fresh: "\<not> m_strides_computed v" and e: "m_e v = e" and S: "m_slices v = S"
    using xview_Inr [OF assms(1)] by simp_all
  have "\<exists>y. map (stride_entry v) [0 ..< dimension v] ! i = Inr y"
    if "i < length (map (stride_entry v) [0 ..< dimension v])" for i
    using that assms(2) by (simp add: stride_entry_def Let_def read_at_def e S)
  then obtain s where c: "collect (map (stride_entry v) [0 ..< dimension v]) = Inr s"
    using collect_total by blast
  let ?v' = "v\<lparr>m_strides := s, m_strides_computed := True\<rparr>"
  have r: "strides v = Inr (s, ?v')"
    using fresh c by (simp add: strides_def compute_strides_def)
  have len: "length s = dimension v" using collect_Inr_length [OF c] by simp
  have entry: "let P = integral_skip S i;
                   axis = P - newaxis_count_before S P
               in s ! i = (if shape v ! i = 1 then 0
                           else if P < length S then step_size (S ! P) * e_strides e ! axis
                           else e_strides e ! axis)"
    if "i < dimension v" for i
  proof -
    have "stride_entry v i = Inr (s ! i)"
      using collect_Inr_nth [OF c, of i] that by simp
    then show ?thesis
      by (auto simp: stride_entry_def Let_def read_at_def e S split: if_splits)
  qed
  have "strides ?v' = Inr (s, ?v')" by (simp add: strides_def)
  with r len entry show ?thesis by blast
qed

text \<open>
  Claim C6 says that, for every view on a buffer-capable expression, \<open>strides()\<close> gives
  every view axis of extent 1 the stride 0 and every other axis the step size of its
  slice times the underlying stride. A row of three elements viewed through
  \<open>All, NewAxis\<close> is a view of shape \<open>[3,1]\<close>. For its second axis, of extent 1,
  \<open>compute_strides\<close> finds the \<open>NewAxis\<close> slice at position 1 and first reads the
  underlying stride at \<open>1 - newaxis_count_before 1 = 1\<close>; the underlying expression has
  one stride, so that read is outside its strides and \<open>strides()\<close> has no defined
  result. The assignment of 0 for an extent of 1 comes after the read.
\<close>

theorem strides_behind_last_axis:
  "xview row3_expr column_slices = Inr column_view
   \<and> shape column_view = [3, 1]
   \<and> column_slices ! integral_skip column_slices 1 = XNewAxis
   \<and> integral_skip column_slices 1
       - newaxis_count_before column_slices (integral_skip column_slices 1) = 1
   \<and> length (e_strides row3_expr) = 1
   \<and> stride_entry column_view 1 = Inl undefined_behaviour
   \<and> compute_strides column_view = Inl undefined_behaviour
   \<and> strides column_view = Inl undefined_behaviour"
proof -
  have "shape column_view = [3, 1]" by (simp add: shape_def column_view_def)
  moreover have "column_slices ! integral_skip column_slices 1 = XNewAxis" by code_simp
  moreover have "integral_skip column_slices 1
       - newaxis_count_before column_slices (integral_skip column_slices 1) = 1"
    by code_simp
  moreover have "length (e_strides row3_expr) = 1" by code_simp
  moreover have "stride_entry column_view 1 = Inl undefined_behaviour" by code_simp
  moreover have c: "compute_strides column_view = Inl undefined_behaviour" by code_simp
  moreover have "strides column_view = Inl undefined_behaviour"
    using c by (simp add: strides_def column_view_def)
  ultimately show ?thesis using column_constructed by simp
qed

text \<open>
  Claim C7 says that \<open>data_offset()\<close> adds, for every slice, its value at 0 times the
  stride of the underlying axis the slice addresses. On a 2 by 3 array with strides
  \<open>[3,1]\<close> viewed through \<open>NewAxis, Range(1,2)\<close> the range addresses underlying axis 0
  and starts at 1, so the offset of the claim is 3, the position of the element \<open>(1,0)\<close>
  on which the begin stepper is anchored. \<open>data_offset()\<close> multiplies by the stride at the
  position of the slice in the slice list, 1, and returns 1.
\<close>

theorem data_offset_after_newaxis:
  "xview grid23_expr grid23_slices = Inr grid23_view
   \<and> data_offset grid23_view = Inr 1
   \<and> e_data_offset grid23_expr
       + slice_value (grid23_slices ! 0) 0 * 0
       + slice_value (grid23_slices ! 1) 0
           * e_strides grid23_expr ! (1 - newaxis_count_before grid23_slices 1) = 3
   \<and> map_sum id m_it
        (stepper_begin (coordinate_cursor grid23_expr) grid23_view (shape grid23_view))
       = Inr [1, 0]"
proof -
  have "data_offset grid23_view = Inr 1" by code_simp
  moreover have "e_data_offset grid23_expr
       + slice_value (grid23_slices ! 0) 0 * 0
       + slice_value (grid23_slices ! 1) 0
           * e_strides grid23_expr ! (1 - newaxis_count_before grid23_slices 1) = 3"
    by code_simp
  moreover have "map_sum id m_it
        (stepper_begin (coordinate_cursor grid23_expr) grid23_view (shape grid23_view))
       = Inr [1, 0]"
    by code_simp
  ultimately show ?thesis using grid23_constructed by simp
qed




text \<open>
  Claim C9. \<open>at(args...)\<close> signals the bounds violation, and performs no access, when
  there are more coordinates than the view has axes or a coordinate is not below the
  extent of its axis; otherwise it returns what \<^verbatim>\<open>operator()\<close> returns.
\<close>

theorem checked_access:
  "at v args
     = (if dimension v < length args \<or> (\<exists>j < length args. shape v ! j \<le> args ! j)
        then Inl out_of_range
        else Inr (access v args))"
proof -
  have "check_access (shape v) args
          = (if dimension v < length args \<or> (\<exists>j < length args. shape v ! j \<le> args ! j)
             then Inl out_of_range else Inr ())"
    using list_ex_zip_iff [of args "shape v"]
    by (auto simp: check_access_def dimension_def shape_def)
  then show ?thesis by (simp add: at_def)
qed

theorem checked_access_witness:
  "at scenario_A_view [0, 0] = Inr (access scenario_A_view [0, 0])
   \<and> access scenario_A_view [0, 0] = [1, 0]
   \<and> at scenario_A_view [2, 0] = Inl out_of_range
   \<and> access scenario_A_view [2, 0] = [3, 0]
   \<and> at scenario_A_view [0, 0, 0] = Inl out_of_range"
proof -
  have a: "access scenario_A_view [0, 0] = [1, 0]"
    "access scenario_A_view [2, 0] = [3, 0]"
    by code_simp+
  have d: "dimension scenario_A_view = 2" "shape scenario_A_view = [2, 5]"
    by (simp_all add: dimension_def shape_def scenario_A_view_def)
  have "\<not> list_ex (\<lambda>(n, a). n \<le> a) (zip [2, 5 :: size_type] [0, 0])" by code_simp
  then have nv: "\<not> (\<exists>j < length [0, 0 :: size_type]. [2, 5 :: size_type] ! j \<le> [0, 0] ! j)"
    using list_ex_zip_iff [of "[0, 0 :: size_type]" "[2, 5]"] by simp
  have 1: "at scenario_A_view [0, 0] = Inr (access scenario_A_view [0, 0])"
    using checked_access [of scenario_A_view "[0, 0]"] nv
    by (simp add: d)
  have 2: "at scenario_A_view [2, 0] = Inl out_of_range"
    using checked_access [of scenario_A_view "[2, 0]"]
    by (auto simp: d)
  have 3: "at scenario_A_view [0, 0, 0] = Inl out_of_range"
    using checked_access [of scenario_A_view "[0, 0, 0]"]
    by (simp add: d)
  from 1 2 3 a show ?thesis by simp
qed

text \<open>
  Claim C10. When the axis that \<open>dim\<close> translates to has extent 0 (the size of the slice
  within the slice list, the extent of the view at \<open>dim\<close> beyond it), \<open>reset(dim)\<close> and
  \<open>reset_back(dim)\<close> hand a step of magnitude exactly 0 to the underlying cursor: the
  extent is decremented only when it is not 0. A cursor that a step of magnitude 0 does
  not move stays where it is.
\<close>

theorem reset_on_empty_axis:
  assumes "if integral_skip (slices (p_view st)) dim < length (slices (p_view st))
           then get_size (slices (p_view st) ! integral_skip (slices (p_view st)) dim) = 0
           else dim < dimension (p_view st) \<and> shape (p_view st) ! dim = 0"
  shows "let S = slices (p_view st);
             P = integral_skip S dim;
             axis = P - newaxis_count_before S P
         in reset ops dim st = Inr (st\<lparr>m_it := sub_step_back ops axis 0 (m_it st)\<rparr>)
          \<and> reset_back ops dim st = Inr (st\<lparr>m_it := sub_step ops axis 0 (m_it st)\<rparr>)
          \<and> ((\<forall>a c. sub_step_back ops a 0 c = c) \<longrightarrow> reset ops dim st = Inr st)
          \<and> ((\<forall>a c. sub_step ops a 0 c = c) \<longrightarrow> reset_back ops dim st = Inr st)"
proof -
  let ?S = "slices (p_view st)"
  let ?P = "integral_skip ?S dim"
  have nn: "\<not> (?P < length ?S \<and> ?S ! ?P = XNewAxis)"
  proof
    assume a: "?P < length ?S \<and> ?S ! ?P = XNewAxis"
    then have "get_size (?S ! ?P) = 0" using assms by simp
    with a show False by simp
  qed
  have inr: "?P < length ?S \<or> dim < dimension (p_view st)"
    using assms by (auto split: if_splits)
  have z: "(if ?P < length ?S then get_size (?S ! ?P) else shape (p_view st) ! dim) = 0"
    using assms by (auto split: if_splits)
  show ?thesis
    using nn inr z
    by (auto simp: Let_def reset_def reset_back_def common_reset_def it_step_def
          it_step_back_def is_newaxis_slice_iff read_at_def shape_def dimension_def)
qed

theorem reset_on_empty_axis_witness:
  "get_size (slices (p_view empty_begin) ! integral_skip (slices (p_view empty_begin)) 0) = 0
   \<and> reset (coordinate_cursor row4_expr) 0 empty_begin = Inr empty_begin
   \<and> reset_back (coordinate_cursor row4_expr) 0 empty_begin = Inr empty_begin"
proof -
  have E: "integral_skip empty_slices 0 = 0" "length empty_slices = 1"
    "get_size (empty_slices ! 0) = 0"
    by code_simp+
  have h: "if integral_skip (slices (p_view empty_begin)) 0 < length (slices (p_view empty_begin))
           then get_size (slices (p_view empty_begin)
                            ! integral_skip (slices (p_view empty_begin)) 0) = 0
           else 0 < dimension (p_view empty_begin) \<and> shape (p_view empty_begin) ! 0 = 0"
    by (simp add: empty_begin_sel E)
  have "\<forall>a c. sub_step_back (coordinate_cursor row4_expr) a 0 c = c"
       "\<forall>a c. sub_step (coordinate_cursor row4_expr) a 0 c = c"
    by (simp_all add: coordinate_cursor_sel)
  then show ?thesis
    using reset_on_empty_axis [OF h, of "coordinate_cursor row4_expr"]
    by (simp add: Let_def empty_begin_sel E)
qed

end
